theory Spec2Isabelle
  imports Complex_Main
begin

section \<open>Subscription lifecycle and usage gating of the nutrition bot\<close>

text \<open>
  The development embeds \<^verbatim>\<open>database/subscription_repository.py\<close>,
  \<^verbatim>\<open>services/payment_service.py\<close>, \<^verbatim>\<open>services/subscription_renewal_service.py\<close>
  and the payment check of \<^verbatim>\<open>handlers/callback_handlers.py\<close>.

  Conventions of the embedding:
  \<^item> a \<^verbatim>\<open>datetime\<close> is the number of microseconds since the epoch, a
    \<^verbatim>\<open>timedelta\<close> a number of microseconds (Python's resolution);
  \<^item> every call of \<^verbatim>\<open>datetime.utcnow()\<close> is a read of a clock: the environment
    gives the value of the n-th read and the state counts the reads made;
  \<^item> a table is the list of its rows, a nullable column an \<open>option\<close>;
  \<^item> every raised exception is a value \<open>Inl e\<close>; a function returns its result
    together with the state reached, so that what was committed before an
    exception stays visible;
  \<^item> calls to the payment gateway and to the Telegram bot are appended to a
    trace, in the order they are made.
\<close>

subsection \<open>Time\<close>

type_synonym datetime = int

definition timedelta_days :: "int \<Rightarrow> int" where
  "timedelta_days d = d * 86400000000"

definition timedelta_hours :: "int \<Rightarrow> int" where
  "timedelta_hours h = h * 3600000000"

subsection \<open>Rows of \<^verbatim>\<open>models/database.py\<close>\<close>

text \<open>
  \<open>sub_id\<close> is the column \<^verbatim>\<open>id\<close> (the name \<open>id\<close> is HOL's identity function).
  The columns \<^verbatim>\<open>is_auto_renewal\<close> and \<^verbatim>\<open>renewal_attempts\<close> have
  defaults and are never written with \<^verbatim>\<open>None\<close>, so they are not options.
  \<^verbatim>\<open>amount\<close> is a Float that the modelled code only copies.
\<close>

record UserSubscription =
  sub_id :: int
  user_id :: int
  payment_id :: string
  amount :: rat
  currency :: string
  status :: string
  start_date :: "datetime option"
  end_date :: "datetime option"
  created_at :: datetime
  is_auto_renewal :: bool
  parent_payment_id :: "string option"
  next_payment_date :: "datetime option"
  renewal_attempts :: int
  last_renewal_attempt :: "datetime option"

text \<open>\<open>usage_id\<close> and \<open>usage_user_id\<close> are the columns \<^verbatim>\<open>id\<close> and
  \<^verbatim>\<open>user_id\<close> of \<^verbatim>\<open>UserUsage\<close>.\<close>

record UserUsage =
  usage_id :: int
  usage_user_id :: int
  photos_used :: int
  questions_used :: int
  last_reset :: datetime

text \<open>Of \<^verbatim>\<open>User\<close> the modelled code reads the key and \<^verbatim>\<open>telegram_id\<close>.\<close>

record User =
  user_pk :: int
  telegram_id :: int

subsection \<open>Exceptions, the gateway, the bot and the trace\<close>

datatype exn =
    MultipleResultsFound
  | IntegrityError
  | AttributeError
  | MissingGreenlet
  | GatewayError

text \<open>The \<^verbatim>\<open>metadata\<close> dictionary built by the renewal service.\<close>

record metadata =
  md_user_id :: int
  md_telegram_id :: int
  md_is_renewal :: bool

text \<open>
  The dictionary \<^verbatim>\<open>payment_data\<close> handed to \<^verbatim>\<open>Payment.create\<close>:
  \<open>pd_return_url\<close> is the redirect confirmation of a plain payment,
  \<open>pd_payment_method_id\<close> the stored method of a recurrent one.
\<close>

record payment_data =
  pd_amount :: rat
  pd_capture :: bool
  pd_description :: string
  pd_return_url :: "string option"
  pd_payment_method_id :: "string option"
  pd_save_payment_method :: bool
  pd_metadata :: "metadata option"

text \<open>
  What the code reads of a gateway \<^verbatim>\<open>Payment\<close> object:
  \<open>pay_confirmation\<close> is \<^verbatim>\<open>confirmation\<close> (its URL, when there is one),
  \<open>pay_payment_method\<close> is \<^verbatim>\<open>payment_method\<close> (its id, when there is one),
  \<open>pay_cancellation_details\<close> is \<^verbatim>\<open>cancellation_details\<close>: the dictionary
  when it is one that answers \<^verbatim>\<open>get\<close>, and \<open>None\<close> when the call of
  \<^verbatim>\<open>get\<close> on it raises.
\<close>

record Payment =
  pay_id :: string
  pay_status :: string
  pay_confirmation :: "string option"
  pay_payment_method :: "string option"
  pay_cancellation_details :: "(string \<times> string) list option"

text \<open>The dictionary returned by the payment service.\<close>

record payment_info =
  pi_id :: string
  pi_status :: string
  pi_confirmation_url :: "string option"
  pi_amount :: rat

record Bot =
  get_me :: "exn + string"

datatype message =
    renewal_success datetime
  | renewal_pending datetime rat "string option" string
  | renewal_failed datetime
  | subscription_activated datetime
  | payment_processing
  | payment_not_passed
  | payment_check_error

datatype event =
    Payment_find_one string
  | Payment_create payment_data
  | bot_get_me
  | send_message int message
  | callback_reply message

text \<open>
  The environment: the clock, \<^verbatim>\<open>config\<close>, the gateway's answers and the bot
  handle of the renewal service (\<open>None\<close> until \<^verbatim>\<open>set_bot\<close>).
\<close>

record env =
  utcnow_at :: "nat \<Rightarrow> datetime"
  SUBSCRIPTION_DAYS :: int
  FREE_PHOTO_LIMIT :: int
  FREE_QUESTION_LIMIT :: int
  find_one :: "string \<Rightarrow> exn + Payment option"
  create :: "payment_data \<Rightarrow> exn + Payment"
  bot :: "Bot option"

text \<open>
  The state: the two tables, the \<^verbatim>\<open>User\<close> objects that the session in use
  already holds, the number of clock reads made so far, and the trace.
\<close>

record world =
  user_subscriptions :: "UserSubscription list"
  user_usage :: "UserUsage list"
  loaded_users :: "User list"
  clock :: nat
  trace :: "event list"

definition utcnow :: "env \<Rightarrow> world \<Rightarrow> datetime \<times> world" where
  "utcnow e w = (utcnow_at e (clock w), w\<lparr>clock := Suc (clock w)\<rparr>)"

definition emit :: "event \<Rightarrow> world \<Rightarrow> world" where
  "emit ev w = w\<lparr>trace := trace w @ [ev]\<rparr>"

subsection \<open>Query results and row updates\<close>

text \<open>\<^verbatim>\<open>Result.scalar_one_or_none()\<close>: no row gives \<^verbatim>\<open>None\<close>, one row gives
  it, more rows raise \<^verbatim>\<open>MultipleResultsFound\<close>.\<close>

fun scalar_one_or_none :: "'a list \<Rightarrow> exn + 'a option" where
  "scalar_one_or_none [] = Inr None"
| "scalar_one_or_none [x] = Inr (Some x)"
| "scalar_one_or_none (x # y # zs) = Inl MultipleResultsFound"

text \<open>The commit of a changed object writes the row with its primary key.\<close>

definition update_subscription ::
  "UserSubscription \<Rightarrow> UserSubscription list \<Rightarrow> UserSubscription list" where
  "update_subscription s rows = map (\<lambda>r. if sub_id r = sub_id s then s else r) rows"

definition update_usage :: "UserUsage \<Rightarrow> UserUsage list \<Rightarrow> UserUsage list" where
  "update_usage u rows = map (\<lambda>r. if usage_id r = usage_id u then u else r) rows"

text \<open>The key given to an inserted row: one more than the largest in use.\<close>

definition next_id :: "int list \<Rightarrow> int" where
  "next_id ks = fold max ks 0 + 1"

subsection \<open>\<^verbatim>\<open>SubscriptionRepository\<close>\<close>

definition create_subscription ::
  "env \<Rightarrow> int \<Rightarrow> string \<Rightarrow> rat \<Rightarrow> world \<Rightarrow> (exn + UserSubscription) \<times> world" where
  "create_subscription e uid pid amt w =
     (let (now, w1) = utcnow e w;
          rows = user_subscriptions w1
      in if pid \<in> set (map payment_id rows) then (Inl IntegrityError, w1)
         else
           (let subscription =
                  \<lparr>sub_id = next_id (map sub_id rows), user_id = uid, payment_id = pid,
                   amount = amt, currency = ''RUB'', status = ''pending'',
                   start_date = None, end_date = None, created_at = now,
                   is_auto_renewal = True, parent_payment_id = None,
                   next_payment_date = None, renewal_attempts = 0,
                   last_renewal_attempt = None\<rparr>
            in (Inr subscription, w1\<lparr>user_subscriptions := rows @ [subscription]\<rparr>)))"

definition activate_subscription ::
  "env \<Rightarrow> string \<Rightarrow> world \<Rightarrow> (exn + UserSubscription option) \<times> world" where
  "activate_subscription e pid w =
     (case scalar_one_or_none (filter (\<lambda>r. payment_id r = pid) (user_subscriptions w)) of
        Inl x \<Rightarrow> (Inl x, w)
      | Inr None \<Rightarrow> (Inr None, w)
      | Inr (Some subscription) \<Rightarrow>
          (let (t1, w1) = utcnow e w;
               (t2, w2) = utcnow e w1;
               ed = t2 + timedelta_days (SUBSCRIPTION_DAYS e);
               s' = subscription\<lparr>status := ''succeeded'', start_date := Some t1,
                                 end_date := Some ed, next_payment_date := Some ed\<rparr>
           in (Inr (Some s'),
               w2\<lparr>user_subscriptions := update_subscription s' (user_subscriptions w2)\<rparr>)))"

text \<open>The \<^verbatim>\<open>where\<close> clause of \<^verbatim>\<open>get_active_subscription\<close>; a comparison with
  a NULL \<^verbatim>\<open>end_date\<close> is not true.\<close>

definition is_active :: "int \<Rightarrow> datetime \<Rightarrow> UserSubscription \<Rightarrow> bool" where
  "is_active uid now r =
     (user_id r = uid \<and> status r = ''succeeded'' \<and>
      (case end_date r of None \<Rightarrow> False | Some d \<Rightarrow> d > now))"

text \<open>\<^verbatim>\<open>order_by(UserSubscription.end_date.desc())\<close>.\<close>

definition order_by_end_date_desc :: "UserSubscription list \<Rightarrow> UserSubscription list" where
  "order_by_end_date_desc rows =
     sort_key (\<lambda>r. case end_date r of None \<Rightarrow> 0 | Some d \<Rightarrow> - d) rows"

definition get_active_subscription ::
  "env \<Rightarrow> int \<Rightarrow> world \<Rightarrow> (exn + UserSubscription option) \<times> world" where
  "get_active_subscription e uid w =
     (let (now, w1) = utcnow e w
      in (scalar_one_or_none
            (order_by_end_date_desc (filter (is_active uid now) (user_subscriptions w1))),
          w1))"

definition cancel_subscription ::
  "env \<Rightarrow> int \<Rightarrow> world \<Rightarrow> (exn + bool) \<times> world" where
  "cancel_subscription e sid w =
     (case scalar_one_or_none (filter (\<lambda>r. sub_id r = sid) (user_subscriptions w)) of
        Inl x \<Rightarrow> (Inl x, w)
      | Inr None \<Rightarrow> (Inr False, w)
      | Inr (Some subscription) \<Rightarrow>
          (let s' = subscription\<lparr>status := ''canceled'', is_auto_renewal := False\<rparr>
           in (Inr True,
               w\<lparr>user_subscriptions := update_subscription s' (user_subscriptions w)\<rparr>)))"

definition toggle_auto_renewal ::
  "env \<Rightarrow> int \<Rightarrow> bool \<Rightarrow> world \<Rightarrow> (exn + UserSubscription option) \<times> world" where
  "toggle_auto_renewal e uid enable w =
     (case get_active_subscription e uid w of
        (Inl x, w1) \<Rightarrow> (Inl x, w1)
      | (Inr None, w1) \<Rightarrow> (Inr None, w1)
      | (Inr (Some subscription), w1) \<Rightarrow>
          (let s' = subscription\<lparr>is_auto_renewal := enable\<rparr>
           in (Inr (Some s'),
               w1\<lparr>user_subscriptions := update_subscription s' (user_subscriptions w1)\<rparr>)))"

text \<open>The \<^verbatim>\<open>where\<close> clause of \<^verbatim>\<open>get_expiring_subscriptions\<close>:
  \<open>check_date\<close> comes from the first clock read, \<open>now\<close> is the second.\<close>

definition is_expiring :: "datetime \<Rightarrow> datetime \<Rightarrow> UserSubscription \<Rightarrow> bool" where
  "is_expiring check_date now r =
     (status r = ''succeeded'' \<and> is_auto_renewal r = True \<and>
      (case end_date r of None \<Rightarrow> False | Some d \<Rightarrow> d \<le> check_date \<and> d > now))"

definition get_expiring_subscriptions ::
  "env \<Rightarrow> int \<Rightarrow> world \<Rightarrow> UserSubscription list \<times> world" where
  "get_expiring_subscriptions e days_before w =
     (let (t1, w1) = utcnow e w;
          check_date = t1 + timedelta_days days_before;
          (t2, w2) = utcnow e w1
      in (filter (is_expiring check_date t2) (user_subscriptions w2), w2))"

definition create_renewal_subscription ::
  "env \<Rightarrow> UserSubscription \<Rightarrow> string \<Rightarrow> world \<Rightarrow> (exn + UserSubscription) \<times> world" where
  "create_renewal_subscription e old_subscription pid w =
     (let (now, w1) = utcnow e w;
          rows = user_subscriptions w1
      in if pid \<in> set (map payment_id rows) then (Inl IntegrityError, w1)
         else
           (let new_subscription =
                  \<lparr>sub_id = next_id (map sub_id rows), user_id = user_id old_subscription,
                   payment_id = pid, amount = amount old_subscription,
                   currency = currency old_subscription, status = ''pending'',
                   start_date = None, end_date = None, created_at = now,
                   is_auto_renewal = is_auto_renewal old_subscription,
                   parent_payment_id = Some (payment_id old_subscription),
                   next_payment_date = None, renewal_attempts = 0,
                   last_renewal_attempt = None\<rparr>
            in (Inr new_subscription, w1\<lparr>user_subscriptions := rows @ [new_subscription]\<rparr>)))"

definition update_renewal_attempt ::
  "env \<Rightarrow> int \<Rightarrow> world \<Rightarrow> (exn + unit) \<times> world" where
  "update_renewal_attempt e sid w =
     (case scalar_one_or_none (filter (\<lambda>r. sub_id r = sid) (user_subscriptions w)) of
        Inl x \<Rightarrow> (Inl x, w)
      | Inr None \<Rightarrow> (Inr (), w)
      | Inr (Some subscription) \<Rightarrow>
          (let (now, w1) = utcnow e w;
               s' = subscription\<lparr>renewal_attempts := renewal_attempts subscription + 1,
                                 last_renewal_attempt := Some now\<rparr>
           in (Inr (),
               w1\<lparr>user_subscriptions := update_subscription s' (user_subscriptions w1)\<rparr>)))"

subsection \<open>\<^verbatim>\<open>UsageRepository\<close>\<close>

definition get_or_create_usage ::
  "env \<Rightarrow> int \<Rightarrow> world \<Rightarrow> (exn + UserUsage) \<times> world" where
  "get_or_create_usage e uid w =
     (case scalar_one_or_none (filter (\<lambda>r. usage_user_id r = uid) (user_usage w)) of
        Inl x \<Rightarrow> (Inl x, w)
      | Inr (Some usage) \<Rightarrow> (Inr usage, w)
      | Inr None \<Rightarrow>
          (let (now, w1) = utcnow e w;
               usage = \<lparr>usage_id = next_id (map usage_id (user_usage w1)),
                        usage_user_id = uid, photos_used = 0, questions_used = 0,
                        last_reset = now\<rparr>
           in (Inr usage, w1\<lparr>user_usage := user_usage w1 @ [usage]\<rparr>)))"

definition increment_photos ::
  "env \<Rightarrow> int \<Rightarrow> world \<Rightarrow> (exn + UserUsage) \<times> world" where
  "increment_photos e uid w =
     (case get_or_create_usage e uid w of
        (Inl x, w1) \<Rightarrow> (Inl x, w1)
      | (Inr usage, w1) \<Rightarrow>
          (let u' = usage\<lparr>photos_used := photos_used usage + 1\<rparr>
           in (Inr u', w1\<lparr>user_usage := update_usage u' (user_usage w1)\<rparr>)))"

definition increment_questions ::
  "env \<Rightarrow> int \<Rightarrow> world \<Rightarrow> (exn + UserUsage) \<times> world" where
  "increment_questions e uid w =
     (case get_or_create_usage e uid w of
        (Inl x, w1) \<Rightarrow> (Inl x, w1)
      | (Inr usage, w1) \<Rightarrow>
          (let u' = usage\<lparr>questions_used := questions_used usage + 1\<rparr>
           in (Inr u', w1\<lparr>user_usage := update_usage u' (user_usage w1)\<rparr>)))"

definition reset_usage ::
  "env \<Rightarrow> int \<Rightarrow> world \<Rightarrow> (exn + UserUsage) \<times> world" where
  "reset_usage e uid w =
     (case get_or_create_usage e uid w of
        (Inl x, w1) \<Rightarrow> (Inl x, w1)
      | (Inr usage, w1) \<Rightarrow>
          (let (now, w2) = utcnow e w1;
               u' = usage\<lparr>photos_used := 0, questions_used := 0, last_reset := now\<rparr>
           in (Inr u', w2\<lparr>user_usage := update_usage u' (user_usage w2)\<rparr>)))"

definition can_use_photo :: "env \<Rightarrow> int \<Rightarrow> world \<Rightarrow> (exn + bool) \<times> world" where
  "can_use_photo e uid w =
     (case get_active_subscription e uid w of
        (Inl x, w1) \<Rightarrow> (Inl x, w1)
      | (Inr (Some active_sub), w1) \<Rightarrow> (Inr True, w1)
      | (Inr None, w1) \<Rightarrow>
          (case get_or_create_usage e uid w1 of
             (Inl x, w2) \<Rightarrow> (Inl x, w2)
           | (Inr usage, w2) \<Rightarrow> (Inr (photos_used usage < FREE_PHOTO_LIMIT e), w2)))"

definition can_ask_question :: "env \<Rightarrow> int \<Rightarrow> world \<Rightarrow> (exn + bool) \<times> world" where
  "can_ask_question e uid w =
     (case get_active_subscription e uid w of
        (Inl x, w1) \<Rightarrow> (Inl x, w1)
      | (Inr (Some active_sub), w1) \<Rightarrow> (Inr True, w1)
      | (Inr None, w1) \<Rightarrow>
          (case get_or_create_usage e uid w1 of
             (Inl x, w2) \<Rightarrow> (Inl x, w2)
           | (Inr usage, w2) \<Rightarrow> (Inr (questions_used usage < FREE_QUESTION_LIMIT e), w2)))"

subsection \<open>\<^verbatim>\<open>PaymentService\<close>\<close>

text \<open>
  \<^verbatim>\<open>create_payment\<close>: every exception of the body is caught and gives
  \<^verbatim>\<open>None\<close>, also the \<^verbatim>\<open>AttributeError\<close> of reading the URL of a missing
  \<^verbatim>\<open>confirmation\<close>. The dictionary has no key \<^verbatim>\<open>save_payment_method\<close>
  here, which the record shows as \<open>False\<close>.
\<close>

definition create_payment ::
  "env \<Rightarrow> rat \<Rightarrow> string \<Rightarrow> string \<Rightarrow> metadata option \<Rightarrow> world
     \<Rightarrow> payment_info option \<times> world" where
  "create_payment e amt description return_url md w =
     (let payment_data =
            \<lparr>pd_amount = amt, pd_capture = True, pd_description = description,
             pd_return_url = Some return_url, pd_payment_method_id = None,
             pd_save_payment_method = False, pd_metadata = md\<rparr>;
          w1 = emit (Payment_create payment_data) w
      in case create e payment_data of
           Inl x \<Rightarrow> (None, w1)
         | Inr payment \<Rightarrow>
             (case pay_confirmation payment of
                None \<Rightarrow> (None, w1)
              | Some url \<Rightarrow>
                  (Some \<lparr>pi_id = pay_id payment, pi_status = pay_status payment,
                         pi_confirmation_url = Some url, pi_amount = amt\<rparr>, w1)))"

definition create_recurrent_payment ::
  "env \<Rightarrow> rat \<Rightarrow> string \<Rightarrow> string \<Rightarrow> string \<Rightarrow> metadata option \<Rightarrow> world
     \<Rightarrow> payment_info option \<times> world" where
  "create_recurrent_payment e amt description return_url parent_pid md w =
     (let w1 = emit (Payment_find_one parent_pid) w
      in case find_one e parent_pid of
           Inl x \<Rightarrow> create_payment e amt description return_url md w1
         | Inr None \<Rightarrow> (None, w1)
         | Inr (Some parent_payment) \<Rightarrow>
             (case pay_payment_method parent_payment of
                None \<Rightarrow> (None, w1)
              | Some method_id \<Rightarrow>
                  (let payment_data =
                         \<lparr>pd_amount = amt, pd_capture = True, pd_description = description,
                          pd_return_url = None, pd_payment_method_id = Some method_id,
                          pd_save_payment_method = True, pd_metadata = md\<rparr>;
                       w2 = emit (Payment_create payment_data) w1
                   in case create e payment_data of
                        Inl x \<Rightarrow> create_payment e amt description return_url md w2
                      | Inr payment \<Rightarrow>
                          (Some \<lparr>pi_id = pay_id payment, pi_status = pay_status payment,
                                 pi_confirmation_url = pay_confirmation payment,
                                 pi_amount = amt\<rparr>, w2))))"

text \<open>\<^verbatim>\<open>check_payment_status\<close>: for a canceled payment the details are
  logged inside the \<^verbatim>\<open>try\<close>, so a failing \<^verbatim>\<open>details.get\<close> gives
  \<^verbatim>\<open>None\<close>.\<close>

definition check_payment_status ::
  "env \<Rightarrow> string \<Rightarrow> world \<Rightarrow> string option \<times> world" where
  "check_payment_status e pid w =
     (let w1 = emit (Payment_find_one pid) w
      in case find_one e pid of
           Inl x \<Rightarrow> (None, w1)
         | Inr None \<Rightarrow> (None, w1)
         | Inr (Some payment) \<Rightarrow>
             (if pay_status payment = ''canceled'' then
                (case pay_cancellation_details payment of
                   None \<Rightarrow> (None, w1)
                 | Some details \<Rightarrow> (Some (pay_status payment), w1))
              else (Some (pay_status payment), w1)))"

subsection \<open>\<^verbatim>\<open>SubscriptionRenewalService\<close>\<close>

text \<open>
  The relationship \<^verbatim>\<open>subscription.user\<close> is loaded lazily. When the session
  already holds the \<^verbatim>\<open>User\<close> (\<open>loaded_users\<close>) the attribute gives it;
  otherwise the read has to query the database, which in an \<^verbatim>\<open>AsyncSession\<close>
  raises \<^verbatim>\<open>MissingGreenlet\<close>.
\<close>

definition subscription_user :: "world \<Rightarrow> UserSubscription \<Rightarrow> exn + User" where
  "subscription_user w subscription =
     (case find (\<lambda>u. user_pk u = user_id subscription) (loaded_users w) of
        None \<Rightarrow> Inl MissingGreenlet
      | Some u \<Rightarrow> Inr u)"

text \<open>
  The three notifications. The body of each is a \<^verbatim>\<open>try\<close> whose handler logs
  \<^verbatim>\<open>subscription.user.telegram_id\<close>: when that read succeeds the handler
  swallows every exception of the body (a missing bot, a missing
  \<^verbatim>\<open>end_date\<close>, a failed delivery); when it raises, it raises in the body and
  again in the handler, and the exception leaves the function.
\<close>

definition notify_user_renewal_success ::
  "env \<Rightarrow> UserSubscription \<Rightarrow> world \<Rightarrow> (exn + unit) \<times> world" where
  "notify_user_renewal_success e subscription w =
     (case subscription_user w subscription of
        Inl x \<Rightarrow> (Inl x, w)
      | Inr u \<Rightarrow>
          (case end_date subscription of
             None \<Rightarrow> (Inr (), w)
           | Some d \<Rightarrow>
               (case bot e of
                  None \<Rightarrow> (Inr (), w)
                | Some b \<Rightarrow>
                    (Inr (), emit (send_message (telegram_id u)
                       (renewal_success (d + timedelta_days (SUBSCRIPTION_DAYS e)))) w))))"

definition notify_user_renewal_pending ::
  "env \<Rightarrow> UserSubscription \<Rightarrow> payment_info \<Rightarrow> world \<Rightarrow> (exn + unit) \<times> world" where
  "notify_user_renewal_pending e subscription info w =
     (case subscription_user w subscription of
        Inl x \<Rightarrow> (Inl x, w)
      | Inr u \<Rightarrow>
          (case bot e of
             None \<Rightarrow> (Inr (), w)
           | Some b \<Rightarrow>
               (case end_date subscription of
                  None \<Rightarrow> (Inr (), w)
                | Some d \<Rightarrow>
                    (Inr (), emit (send_message (telegram_id u)
                       (renewal_pending d (amount subscription)
                          (pi_confirmation_url info) (pi_id info))) w))))"

definition notify_user_renewal_failed ::
  "env \<Rightarrow> UserSubscription \<Rightarrow> world \<Rightarrow> (exn + unit) \<times> world" where
  "notify_user_renewal_failed e subscription w =
     (case subscription_user w subscription of
        Inl x \<Rightarrow> (Inl x, w)
      | Inr u \<Rightarrow>
          (case bot e of
             None \<Rightarrow> (Inr (), w)
           | Some b \<Rightarrow>
               (case end_date subscription of
                  None \<Rightarrow> (Inr (), w)
                | Some d \<Rightarrow>
                    (Inr (), emit (send_message (telegram_id u) (renewal_failed d)) w))))"

text \<open>The description of the payment (a Russian sentence in the source).\<close>

definition renewal_description :: string where
  "renewal_description = ''Prodlenie podpiski na II Nutriciolog''"

text \<open>
  \<open>attempt_renewal\<close> is the rest of \<^verbatim>\<open>process_renewal\<close> after its two gates:
  the bot check, the recurrent payment and what follows its result.
\<close>

definition attempt_renewal ::
  "env \<Rightarrow> UserSubscription \<Rightarrow> world \<Rightarrow> (exn + unit) \<times> world" where
  "attempt_renewal e subscription w =
     (case bot e of
        None \<Rightarrow> (Inr (), w)
      | Some b \<Rightarrow>
          (let w1 = emit bot_get_me w
           in case get_me b of
                Inl x \<Rightarrow> (Inl x, w1)
              | Inr username \<Rightarrow>
                  (case subscription_user w1 subscription of
                     Inl x \<Rightarrow> (Inl x, w1)
                   | Inr u \<Rightarrow>
                       (case create_recurrent_payment e (amount subscription)
                               renewal_description (''https://t.me/'' @ username)
                               (payment_id subscription)
                               (Some \<lparr>md_user_id = user_id subscription,
                                      md_telegram_id = telegram_id u,
                                      md_is_renewal = True\<rparr>) w1 of
                          (Some info, w2) \<Rightarrow>
                            (case create_renewal_subscription e subscription (pi_id info) w2 of
                               (Inl x, w3) \<Rightarrow> (Inl x, w3)
                             | (Inr new_subscription, w3) \<Rightarrow>
                                 (if pi_status info = ''succeeded'' then
                                    (case activate_subscription e (pi_id info) w3 of
                                       (Inl x, w4) \<Rightarrow> (Inl x, w4)
                                     | (Inr activated, w4) \<Rightarrow>
                                         notify_user_renewal_success e subscription w4)
                                  else notify_user_renewal_pending e subscription info w3))
                        | (None, w2) \<Rightarrow> update_renewal_attempt e (sub_id subscription) w2))))"

definition process_renewal ::
  "env \<Rightarrow> UserSubscription \<Rightarrow> world \<Rightarrow> (exn + unit) \<times> world" where
  "process_renewal e subscription w =
     (if renewal_attempts subscription \<ge> 3 then notify_user_renewal_failed e subscription w
      else
        (case last_renewal_attempt subscription of
           None \<Rightarrow> attempt_renewal e subscription w
         | Some last_attempt \<Rightarrow>
             (let (now, w1) = utcnow e w
              in if now - last_attempt < timedelta_hours 6 then (Inr (), w1)
                 else attempt_renewal e subscription w1)))"

text \<open>The loop of \<^verbatim>\<open>check_and_renew_subscriptions\<close> over the expiring rows: an
  exception of \<^verbatim>\<open>process_renewal\<close> is caught and recorded as an attempt. The
  scan opens a session of its own, which holds no \<^verbatim>\<open>User\<close>.\<close>

fun renew_each :: "env \<Rightarrow> UserSubscription list \<Rightarrow> world \<Rightarrow> (exn + unit) \<times> world" where
  "renew_each e [] w = (Inr (), w)"
| "renew_each e (subscription # rest) w =
     (case process_renewal e subscription w of
        (Inl x, w1) \<Rightarrow>
          (case update_renewal_attempt e (sub_id subscription) w1 of
             (Inl y, w2) \<Rightarrow> (Inl y, w2)
           | (Inr u, w2) \<Rightarrow> renew_each e rest w2)
      | (Inr u, w1) \<Rightarrow> renew_each e rest w1)"

definition check_and_renew_subscriptions :: "env \<Rightarrow> world \<Rightarrow> (exn + unit) \<times> world" where
  "check_and_renew_subscriptions e w =
     (let (expiring_subs, w1) = get_expiring_subscriptions e 1 (w\<lparr>loaded_users := []\<rparr>)
      in renew_each e expiring_subs w1)"

subsection \<open>\<^verbatim>\<open>CallbackHandlers.handle_check_payment\<close>\<close>

text \<open>The handler after it has read the payment id off the callback data; its
  \<^verbatim>\<open>try\<close> turns every exception into the error reply.\<close>

definition handle_check_payment :: "env \<Rightarrow> string \<Rightarrow> world \<Rightarrow> world" where
  "handle_check_payment e pid w =
     (case check_payment_status e pid w of
        (st, w1) \<Rightarrow>
          (if st = Some ''succeeded'' then
             (case activate_subscription e pid w1 of
                (Inl x, w2) \<Rightarrow> emit (callback_reply payment_check_error) w2
              | (Inr None, w2) \<Rightarrow> w2
              | (Inr (Some subscription), w2) \<Rightarrow>
                  (case reset_usage e (user_id subscription) w2 of
                     (Inl x, w3) \<Rightarrow> emit (callback_reply payment_check_error) w3
                   | (Inr usage, w3) \<Rightarrow>
                       (case end_date subscription of
                          None \<Rightarrow> emit (callback_reply payment_check_error) w3
                        | Some d \<Rightarrow> emit (callback_reply (subscription_activated d)) w3)))
           else if st = Some ''pending'' \<or> st = Some ''waiting_for_capture''
             then emit (callback_reply payment_processing) w1
           else emit (callback_reply payment_not_passed) w1))"

subsection \<open>Concrete inputs\<close>

text \<open>
  One user with one paid subscription that ends in twelve hours, free limits
  used up, a gateway that charges the stored method at once, and a clock that
  advances by a minute at every read.
\<close>

definition ex_user :: User where
  "ex_user = \<lparr>user_pk = 1, telegram_id = 100\<rparr>"

definition ex_subscription :: UserSubscription where
  "ex_subscription =
     \<lparr>sub_id = 1, user_id = 1, payment_id = ''p1'', amount = 299, currency = ''RUB'',
      status = ''succeeded'', start_date = Some 0, end_date = Some 2592000000000,
      created_at = 0, is_auto_renewal = True, parent_payment_id = None,
      next_payment_date = Some 2592000000000, renewal_attempts = 0,
      last_renewal_attempt = None\<rparr>"

definition ex_usage :: UserUsage where
  "ex_usage = \<lparr>usage_id = 1, usage_user_id = 1, photos_used = 5, questions_used = 10,
               last_reset = 0\<rparr>"

definition ex_world :: world where
  "ex_world = \<lparr>user_subscriptions = [ex_subscription], user_usage = [ex_usage],
               loaded_users = [], clock = 0, trace = []\<rparr>"

definition ex_clock :: "nat \<Rightarrow> datetime" where
  "ex_clock n = 2548800000000 + 60000000 * int n"

definition ex_find_one :: "string \<Rightarrow> exn + Payment option" where
  "ex_find_one p = Inr (Some \<lparr>pay_id = p, pay_status = ''succeeded'',
     pay_confirmation = None, pay_payment_method = Some ''pm1'',
     pay_cancellation_details = None\<rparr>)"

definition ex_create :: "payment_data \<Rightarrow> exn + Payment" where
  "ex_create d = Inr \<lparr>pay_id = ''p2'', pay_status = ''succeeded'',
     pay_confirmation = None, pay_payment_method = Some ''pm1'',
     pay_cancellation_details = None\<rparr>"

definition ex_env :: env where
  "ex_env = \<lparr>utcnow_at = ex_clock, SUBSCRIPTION_DAYS = 30, FREE_PHOTO_LIMIT = 5,
             FREE_QUESTION_LIMIT = 10, find_one = ex_find_one, create = ex_create,
             bot = Some \<lparr>get_me = Inr ''nutribot''\<rparr>\<rparr>"

text \<open>The same state in a session that already holds the user.\<close>

definition ex_loaded_world :: world where
  "ex_loaded_world = ex_world\<lparr>loaded_users := [ex_user]\<rparr>"

text \<open>
  A user without a subscription asks for one twice, which stores the pending
  payments \<open>p1\<close> and \<open>p2\<close>, pays both, and has each checked.
\<close>

definition ex_new_user_world :: world where
  "ex_new_user_world = ex_world\<lparr>user_subscriptions := []\<rparr>"

definition ex_two_pending_world :: world where
  "ex_two_pending_world =
     snd (create_subscription ex_env 1 ''p2'' 299
            (snd (create_subscription ex_env 1 ''p1'' 299 ex_new_user_world)))"

definition ex_twice_paid_world :: world where
  "ex_twice_paid_world =
     handle_check_payment ex_env ''p2'' (handle_check_payment ex_env ''p1'' ex_two_pending_world)"

text \<open>A payment that is still pending, to be confirmed.\<close>

definition ex_pending_world :: world where
  "ex_pending_world =
     ex_world\<lparr>user_subscriptions :=
       [ex_subscription\<lparr>status := ''pending'', start_date := None, end_date := None,
                        next_payment_date := None\<rparr>]\<rparr>"

text \<open>A canceled subscription with auto-renewal off, and one as the handlers
  leave it, which write the status only.\<close>

definition ex_canceled_subscription :: UserSubscription where
  "ex_canceled_subscription = ex_subscription\<lparr>status := ''canceled'', is_auto_renewal := False\<rparr>"

definition ex_canceled_world :: world where
  "ex_canceled_world = ex_world\<lparr>user_subscriptions := [ex_canceled_subscription]\<rparr>"

definition ex_canceled_by_handler :: UserSubscription where
  "ex_canceled_by_handler = ex_subscription\<lparr>sub_id := 2, payment_id := ''p0'', status := ''canceled''\<rparr>"

definition ex_mixed_world :: world where
  "ex_mixed_world = ex_world\<lparr>user_subscriptions := [ex_subscription, ex_canceled_by_handler]\<rparr>"

text \<open>A subscription with two failed attempts, the last one seven hours before
  the first scan, and one with three.\<close>

definition ex_tried_twice :: UserSubscription where
  "ex_tried_twice =
     ex_subscription\<lparr>renewal_attempts := 2, last_renewal_attempt := Some 2523600000000\<rparr>"

definition ex_tried_twice_world :: world where
  "ex_tried_twice_world = ex_world\<lparr>user_subscriptions := [ex_tried_twice]\<rparr>"

definition ex_exhausted_subscription :: UserSubscription where
  "ex_exhausted_subscription =
     ex_subscription\<lparr>renewal_attempts := 3, last_renewal_attempt := Some 2462400000000\<rparr>"

definition ex_exhausted_world :: world where
  "ex_exhausted_world = ex_world\<lparr>user_subscriptions := [ex_exhausted_subscription]\<rparr>"

text \<open>Subscriptions with one failed attempt, two and seven hours before the scan.\<close>

definition ex_tried_2h :: UserSubscription where
  "ex_tried_2h =
     ex_subscription\<lparr>renewal_attempts := 1, last_renewal_attempt := Some 2541600000000\<rparr>"

definition ex_tried_7h :: UserSubscription where
  "ex_tried_7h =
     ex_subscription\<lparr>renewal_attempts := 1, last_renewal_attempt := Some 2523600000000\<rparr>"

text \<open>
  Three subscriptions around the scheduler's window. The scan reads the clock at
  2548800000000 and, a minute later, at 2548860000000: the first ends
  at the second read, the second a day after the second read, the third in
  twelve hours.
\<close>

definition ex_ends_at_once :: UserSubscription where
  "ex_ends_at_once = ex_subscription\<lparr>end_date := Some 2548860000000\<rparr>"

definition ex_ends_in_a_day :: UserSubscription where
  "ex_ends_in_a_day =
     ex_subscription\<lparr>sub_id := 2, payment_id := ''p2'', end_date := Some 2635260000000\<rparr>"

definition ex_ends_in_12h :: UserSubscription where
  "ex_ends_in_12h =
     ex_subscription\<lparr>sub_id := 3, payment_id := ''p3'', end_date := Some 2592000000000\<rparr>"

definition ex_window_world :: world where
  "ex_window_world =
     ex_world\<lparr>user_subscriptions := [ex_ends_at_once, ex_ends_in_a_day, ex_ends_in_12h]\<rparr>"

text \<open>Gateways: one that knows no stored method for the parent payment, one
  that fails.\<close>

definition ex_find_one_no_method :: "string \<Rightarrow> exn + Payment option" where
  "ex_find_one_no_method p = Inr (Some \<lparr>pay_id = p, pay_status = ''succeeded'',
     pay_confirmation = None, pay_payment_method = None,
     pay_cancellation_details = None\<rparr>)"

definition ex_env_no_method :: env where
  "ex_env_no_method = ex_env\<lparr>find_one := ex_find_one_no_method\<rparr>"

definition ex_find_one_raises :: "string \<Rightarrow> exn + Payment option" where
  "ex_find_one_raises p = Inl GatewayError"

text \<open>The gateway's answer to a plain payment (a redirect to confirm it) and
  its refusal of a charge on the stored method.\<close>

definition ex_create_plain :: "payment_data \<Rightarrow> exn + Payment" where
  "ex_create_plain d =
     (if pd_payment_method_id d = None
      then Inr \<lparr>pay_id = ''p3'', pay_status = ''pending'',
                pay_confirmation = Some ''https://pay.example/p3'', pay_payment_method = None,
                pay_cancellation_details = None\<rparr>
      else Inl GatewayError)"

definition ex_env_raises :: env where
  "ex_env_raises = ex_env\<lparr>find_one := ex_find_one_raises, create := ex_create_plain\<rparr>"

definition ex_env_refused :: env where
  "ex_env_refused = ex_env\<lparr>create := ex_create_plain\<rparr>"

text \<open>Definitions unfolded when a concrete input is evaluated.\<close>

lemmas ex_defs = ex_user_def ex_subscription_def ex_usage_def ex_world_def ex_clock_def
  ex_find_one_def ex_create_def ex_env_def ex_loaded_world_def ex_new_user_world_def
  ex_two_pending_world_def ex_twice_paid_world_def ex_pending_world_def
  ex_canceled_subscription_def ex_canceled_world_def ex_canceled_by_handler_def
  ex_mixed_world_def ex_tried_twice_def ex_tried_twice_world_def
  ex_exhausted_subscription_def ex_exhausted_world_def ex_tried_2h_def ex_tried_7h_def
  ex_ends_at_once_def ex_ends_in_a_day_def ex_ends_in_12h_def ex_window_world_def
  ex_find_one_no_method_def ex_env_no_method_def ex_find_one_raises_def ex_env_raises_def
  ex_create_plain_def ex_env_refused_def

lemmas op_defs = check_and_renew_subscriptions_def get_expiring_subscriptions_def utcnow_def
  is_expiring_def timedelta_days_def timedelta_hours_def process_renewal_def attempt_renewal_def
  emit_def subscription_user_def create_recurrent_payment_def create_payment_def
  create_renewal_subscription_def create_subscription_def next_id_def activate_subscription_def
  update_subscription_def
  notify_user_renewal_success_def notify_user_renewal_pending_def notify_user_renewal_failed_def
  update_renewal_attempt_def get_active_subscription_def is_active_def order_by_end_date_desc_def
  can_use_photo_def can_ask_question_def get_or_create_usage_def renewal_description_def
  cancel_subscription_def toggle_auto_renewal_def increment_photos_def increment_questions_def
  reset_usage_def update_usage_def handle_check_payment_def check_payment_status_def Let_def

section \<open>Lemmas\<close>

lemma scalar_one_or_none_Some: "scalar_one_or_none xs = Inr (Some x) \<longleftrightarrow> xs = [x]"
  by (cases xs rule: scalar_one_or_none.cases) auto

lemma scalar_one_or_none_None: "scalar_one_or_none xs = Inr None \<longleftrightarrow> xs = []"
  by (cases xs rule: scalar_one_or_none.cases) auto

lemma scalar_one_or_none_Inl:
  "scalar_one_or_none xs = Inl x \<longleftrightarrow> x = MultipleResultsFound \<and> 2 \<le> length xs"
  by (cases xs rule: scalar_one_or_none.cases) auto

lemma scalar_one_or_none_length:
  "length xs = length ys \<Longrightarrow> (length xs = 1 \<Longrightarrow> xs = ys) \<Longrightarrow>
   scalar_one_or_none xs = scalar_one_or_none ys"
  by (cases xs rule: scalar_one_or_none.cases; cases ys rule: scalar_one_or_none.cases) auto

lemma scalar_order_by:
  "scalar_one_or_none (order_by_end_date_desc xs) = scalar_one_or_none xs"
proof (rule scalar_one_or_none_length)
  show "length (order_by_end_date_desc xs) = length xs"
    by (simp add: order_by_end_date_desc_def)
next
  assume "length (order_by_end_date_desc xs) = 1"
  then have "length xs = 1" by (simp add: order_by_end_date_desc_def)
  then obtain x where "xs = [x]" by (cases xs) auto
  then show "order_by_end_date_desc xs = xs" by (simp add: order_by_end_date_desc_def)
qed

text \<open>Writing a row back by its key, in a table whose keys are distinct.\<close>

lemma write_back_untouched:
  "\<forall>r \<in> set rows. key r \<noteq> k \<Longrightarrow> map (\<lambda>r. if key r = k then v else r) rows = rows"
  by (induction rows) auto

lemma write_back_selected:
  "distinct (map key rows) \<Longrightarrow> filter P rows = [u] \<Longrightarrow> P v \<Longrightarrow>
   filter P (map (\<lambda>r. if key r = key u then v else r) rows) = [v]"
proof (induction rows)
  case Nil
  then show ?case by simp
next
  case (Cons r rs)
  show ?case
  proof (cases "P r")
    case True
    with Cons.prems have ru: "r = u" and none: "filter P rs = []" by auto
    from Cons.prems ru have "key u \<notin> key ` set rs" by simp
    then have "\<forall>x \<in> set rs. key x \<noteq> key u" by (metis imageI)
    then have "map (\<lambda>r. if key r = key u then v else r) rs = rs"
      by (rule write_back_untouched)
    with ru none Cons.prems show ?thesis by simp
  next
    case False
    with Cons.prems have sel: "filter P rs = [u]" by simp
    then have "u \<in> set (filter P rs)" by simp
    then have "u \<in> set rs" by simp
    with Cons.prems have "key r \<noteq> key u" by auto
    with False sel Cons show ?thesis by simp
  qed
qed

lemma write_back_others:
  "distinct (map key rows) \<Longrightarrow> u \<in> set rows \<Longrightarrow> \<not> Q u \<Longrightarrow> \<not> Q v \<Longrightarrow>
   filter Q (map (\<lambda>r. if key r = key u then v else r) rows) = filter Q rows"
proof (induction rows)
  case Nil
  then show ?case by simp
next
  case (Cons r rs)
  show ?case
  proof (cases "r = u")
    case True
    with Cons.prems have "key u \<notin> key ` set rs" by simp
    then have "\<forall>x \<in> set rs. key x \<noteq> key u" by (metis imageI)
    then have "map (\<lambda>r. if key r = key u then v else r) rs = rs"
      by (rule write_back_untouched)
    with True Cons.prems show ?thesis by simp
  next
    case False
    with Cons.prems have "u \<in> set rs" by simp
    moreover from this Cons.prems have "key r \<noteq> key u" by auto
    ultimately show ?thesis using Cons by simp
  qed
qed

lemma fold_max_ge: "(k::int) \<in> set ks \<Longrightarrow> k \<le> fold max ks a"
proof (induction ks arbitrary: a)
  case Nil then show ?case by simp
next
  case (Cons x xs)
  have mono: "\<And>b. b \<le> fold max xs b"
  proof -
    fix b :: int show "b \<le> fold max xs b"
    proof (induction xs arbitrary: b)
      case Nil show ?case by simp
    next
      case (Cons y ys)
      have "b \<le> max y b" by simp
      also have "\<dots> \<le> fold max ys (max y b)" by (rule Cons.IH)
      finally show ?case by simp
    qed
  qed
  show ?case
  proof (cases "k = x")
    case True
    have "x \<le> max x a" by simp
    also have "\<dots> \<le> fold max xs (max x a)" by (rule mono)
    finally show ?thesis using True by simp
  next
    case False
    with Cons.prems have "k \<in> set xs" by simp
    then show ?thesis using Cons.IH by simp
  qed
qed

lemma next_id_fresh: "next_id ks \<notin> set ks"
proof
  assume "next_id ks \<in> set ks"
  then have "next_id ks \<le> fold max ks 0" by (rule fold_max_ge)
  then show False by (simp add: next_id_def)
qed

lemma get_or_create_usage_row:
  assumes "get_or_create_usage e uid w = (Inr usage, w1)"
      and "distinct (map usage_id (user_usage w))"
  shows "filter (\<lambda>r. usage_user_id r = uid) (user_usage w1) = [usage]"
    and "distinct (map usage_id (user_usage w1))"
    and "usage_user_id usage = uid"
    and "filter (\<lambda>r. usage_user_id r \<noteq> uid) (user_usage w1) =
         filter (\<lambda>r. usage_user_id r \<noteq> uid) (user_usage w)"
    and "user_subscriptions w1 = user_subscriptions w"
    and "trace w1 = trace w"
proof -
  let ?sel = "filter (\<lambda>r. usage_user_id r = uid) (user_usage w)"
  consider (old) "?sel = [usage]" "w1 = w"
    | (new) "?sel = []"
        "usage = \<lparr>usage_id = next_id (map usage_id (user_usage w)), usage_user_id = uid,
                  photos_used = 0, questions_used = 0,
                  last_reset = utcnow_at e (clock w)\<rparr>"
        "w1 = w\<lparr>clock := Suc (clock w), user_usage := user_usage w @ [usage]\<rparr>"
  proof (cases "scalar_one_or_none ?sel")
    case (Inl x)
    with assms(1) show ?thesis by (simp add: get_or_create_usage_def)
  next
    case (Inr found)
    show ?thesis
    proof (cases found)
      case None
      with Inr have "?sel = []" by (simp add: scalar_one_or_none_None)
      moreover from assms(1) Inr None
      have "usage = \<lparr>usage_id = next_id (map usage_id (user_usage w)), usage_user_id = uid,
                  photos_used = 0, questions_used = 0,
                  last_reset = utcnow_at e (clock w)\<rparr>"
        and "w1 = w\<lparr>clock := Suc (clock w), user_usage := user_usage w @ [usage]\<rparr>"
        by (auto simp: get_or_create_usage_def utcnow_def Let_def)
      ultimately show ?thesis by (rule new)
    next
      case (Some u)
      with Inr have "?sel = [u]" by (simp add: scalar_one_or_none_Some)
      moreover from assms(1) Inr Some have "usage = u" "w1 = w"
        by (simp_all add: get_or_create_usage_def)
      ultimately show ?thesis using old by simp
    qed
  qed
  then have all: "filter (\<lambda>r. usage_user_id r = uid) (user_usage w1) = [usage] \<and>
      distinct (map usage_id (user_usage w1)) \<and> usage_user_id usage = uid \<and>
      filter (\<lambda>r. usage_user_id r \<noteq> uid) (user_usage w1) =
         filter (\<lambda>r. usage_user_id r \<noteq> uid) (user_usage w) \<and>
      user_subscriptions w1 = user_subscriptions w \<and> trace w1 = trace w"
  proof cases
    case old
    have "usage \<in> set ?sel" using old by simp
    then have "usage_user_id usage = uid" by simp
    with old assms(2) show ?thesis by simp
  next
    case new
    have "usage_id usage \<notin> set (map usage_id (user_usage w))"
      using new(2) next_id_fresh [of "map usage_id (user_usage w)"] by simp
    with new assms(2) show ?thesis by simp
  qed
  from all show "filter (\<lambda>r. usage_user_id r = uid) (user_usage w1) = [usage]" by simp
  from all show "distinct (map usage_id (user_usage w1))" by simp
  from all show "usage_user_id usage = uid" by simp
  from all show "filter (\<lambda>r. usage_user_id r \<noteq> uid) (user_usage w1) =
         filter (\<lambda>r. usage_user_id r \<noteq> uid) (user_usage w)" by simp
  from all show "user_subscriptions w1 = user_subscriptions w" by simp
  from all show "trace w1 = trace w" by simp
qed

lemma update_usage_selected:
  assumes "distinct (map usage_id rows)"
      and "filter (\<lambda>r. usage_user_id r = uid) rows = [u]"
      and "usage_id v = usage_id u" and "usage_user_id v = uid"
  shows "filter (\<lambda>r. usage_user_id r = uid) (update_usage v rows) = [v]"
    and "filter (\<lambda>r. usage_user_id r \<noteq> uid) (update_usage v rows) =
         filter (\<lambda>r. usage_user_id r \<noteq> uid) rows"
proof -
  have upd: "update_usage v rows = map (\<lambda>r. if usage_id r = usage_id u then v else r) rows"
    by (simp add: update_usage_def assms(3))
  show "filter (\<lambda>r. usage_user_id r = uid) (update_usage v rows) = [v]"
    unfolding upd using assms(1,2,4) by (intro write_back_selected) auto
  have "u \<in> set (filter (\<lambda>r. usage_user_id r = uid) rows)" using assms(2) by simp
  then have "u \<in> set rows" "usage_user_id u = uid" by simp_all
  then show "filter (\<lambda>r. usage_user_id r \<noteq> uid) (update_usage v rows) =
         filter (\<lambda>r. usage_user_id r \<noteq> uid) rows"
    unfolding upd using assms(1,4) by (intro write_back_others) auto
qed

lemma update_subscription_keys: "map sub_id (update_subscription s rows) = map sub_id rows"
  by (induction rows) (auto simp: update_subscription_def)

lemma update_subscription_selected:
  assumes "distinct (map sub_id rows)" and "filter P rows = [s]"
      and "sub_id v = sub_id s" and "P v"
  shows "filter P (update_subscription v rows) = [v]"
proof -
  have "update_subscription v rows = map (\<lambda>r. if sub_id r = sub_id s then v else r) rows"
    by (simp add: update_subscription_def assms(3))
  then show ?thesis using assms(1,2,4) by (simp add: write_back_selected)
qed

lemma update_subscription_others:
  assumes "distinct (map sub_id rows)" and "s \<in> set rows"
      and "sub_id v = sub_id s" and "\<not> Q s" and "\<not> Q v"
  shows "filter Q (update_subscription v rows) = filter Q rows"
proof -
  have "update_subscription v rows = map (\<lambda>r. if sub_id r = sub_id s then v else r) rows"
    by (simp add: update_subscription_def assms(3))
  then show ?thesis using assms(1,2,4,5) by (simp add: write_back_others)
qed

lemma update_subscription_same:
  assumes "distinct (map sub_id rows)" and "s \<in> set rows"
  shows "update_subscription s rows = rows"
proof -
  from assms(1) have inj: "inj_on sub_id (set rows)" by (simp add: distinct_map)
  have "\<And>r. r \<in> set rows \<Longrightarrow> (if sub_id r = sub_id s then s else r) = r"
    using inj assms(2) by (auto dest: inj_onD)
  then show ?thesis unfolding update_subscription_def by (rule map_idI)
qed

lemma activate_subscription_found:
  assumes "filter (\<lambda>r. payment_id r = pid) (user_subscriptions w) = [s]"
  shows "activate_subscription e pid w =
           (Inr (Some (s\<lparr>status := ''succeeded'', start_date := Some (utcnow_at e (clock w)),
                 end_date := Some (utcnow_at e (Suc (clock w)) +
                                   timedelta_days (SUBSCRIPTION_DAYS e)),
                 next_payment_date := Some (utcnow_at e (Suc (clock w)) +
                                   timedelta_days (SUBSCRIPTION_DAYS e))\<rparr>)),
            w\<lparr>clock := Suc (Suc (clock w)),
              user_subscriptions :=
                update_subscription
                  (s\<lparr>status := ''succeeded'', start_date := Some (utcnow_at e (clock w)),
                     end_date := Some (utcnow_at e (Suc (clock w)) +
                                       timedelta_days (SUBSCRIPTION_DAYS e)),
                     next_payment_date := Some (utcnow_at e (Suc (clock w)) +
                                       timedelta_days (SUBSCRIPTION_DAYS e))\<rparr>)
                  (user_subscriptions w)\<rparr>)"
  using assms by (simp add: activate_subscription_def utcnow_def Let_def)

lemma filter_key_distinct:
  "distinct (map key rows) \<Longrightarrow> r \<in> set rows \<Longrightarrow> filter (\<lambda>x. key x = key r) rows = [r]"
proof (induction rows)
  case Nil
  then show ?case by simp
next
  case (Cons x xs)
  show ?case
  proof (cases "x = r")
    case True
    with Cons.prems have "key r \<notin> key ` set xs" by simp
    then have "\<forall>y \<in> set xs. key y \<noteq> key r" by (metis imageI)
    then have "filter (\<lambda>y. key y = key r) xs = []" by (simp add: filter_empty_conv)
    with True show ?thesis by simp
  next
    case False
    with Cons.prems have mem: "r \<in> set xs" by simp
    from Cons.prems have "key x \<notin> key ` set xs" by simp
    with mem have "key x \<noteq> key r" by (metis imageI)
    with Cons mem show ?thesis by simp
  qed
qed

lemma get_active_subscription_eq:
  "get_active_subscription e uid w =
     (scalar_one_or_none (filter (is_active uid (utcnow_at e (clock w))) (user_subscriptions w)),
      w\<lparr>clock := Suc (clock w)\<rparr>)"
  by (simp add: get_active_subscription_def utcnow_def scalar_order_by)

lemma toggle_auto_renewal_canceled:
  assumes pk: "distinct (map sub_id (user_subscriptions w))"
  shows "filter (\<lambda>x. status x = ''canceled'')
           (user_subscriptions (snd (toggle_auto_renewal e uid enable w))) =
         filter (\<lambda>x. status x = ''canceled'') (user_subscriptions w)"
proof -
  let ?act = "filter (is_active uid (utcnow_at e (clock w))) (user_subscriptions w)"
  show ?thesis
  proof (cases "scalar_one_or_none ?act")
    case (Inl x)
    then show ?thesis by (simp add: toggle_auto_renewal_def get_active_subscription_eq)
  next
    case (Inr found)
    show ?thesis
    proof (cases found)
      case None
      with Inr show ?thesis by (simp add: toggle_auto_renewal_def get_active_subscription_eq)
    next
      case (Some s)
      with Inr have "?act = [s]" by (simp add: scalar_one_or_none_Some)
      then have "s \<in> set ?act" by simp
      then have mem: "s \<in> set (user_subscriptions w)" and st: "status s = ''succeeded''"
        by (simp_all add: is_active_def)
      have "filter (\<lambda>x. status x = ''canceled'')
              (update_subscription (s\<lparr>is_auto_renewal := enable\<rparr>) (user_subscriptions w)) =
            filter (\<lambda>x. status x = ''canceled'') (user_subscriptions w)"
        using pk mem st by (intro update_subscription_others [where s = s]) simp_all
      with Inr Some show ?thesis
        by (simp add: toggle_auto_renewal_def get_active_subscription_eq Let_def)
    qed
  qed
qed

lemma cancel_subscription_found:
  assumes "filter (\<lambda>x. sub_id x = sid) (user_subscriptions w) = [s]"
  shows "cancel_subscription e sid w =
           (Inr True,
            w\<lparr>user_subscriptions :=
                update_subscription (s\<lparr>status := ''canceled'', is_auto_renewal := False\<rparr>)
                  (user_subscriptions w)\<rparr>)"
  using assms by (simp add: cancel_subscription_def Let_def)

text \<open>The gate when the user's active rows are not ambiguous.\<close>

lemma get_active_subscription_single:
  "filter (is_active uid (utcnow_at e (clock w))) (user_subscriptions w) = [s] \<Longrightarrow>
   fst (get_active_subscription e uid w) = Inr (Some s)"
  by (simp add: get_active_subscription_eq)

lemma get_active_subscription_none:
  "filter (is_active uid (utcnow_at e (clock w))) (user_subscriptions w) = [] \<Longrightarrow>
   fst (get_active_subscription e uid w) = Inr None"
  by (simp add: get_active_subscription_eq)

lemma can_use_photo_single:
  "filter (is_active uid (utcnow_at e (clock w))) (user_subscriptions w) = [s] \<Longrightarrow>
   fst (can_use_photo e uid w) = Inr True \<and> fst (can_ask_question e uid w) = Inr True"
  by (simp add: can_use_photo_def can_ask_question_def get_active_subscription_eq)

lemma can_use_photo_free:
  assumes "filter (is_active uid (utcnow_at e (clock w))) (user_subscriptions w) = []"
      and "get_or_create_usage e uid (w\<lparr>clock := Suc (clock w)\<rparr>) = (Inr usage, w1)"
  shows "fst (can_use_photo e uid w) = Inr (photos_used usage < FREE_PHOTO_LIMIT e)"
    and "fst (can_ask_question e uid w) = Inr (questions_used usage < FREE_QUESTION_LIMIT e)"
  using assms
  by (simp_all add: can_use_photo_def can_ask_question_def get_active_subscription_eq)

text \<open>The trace only grows, and the repository does not write to it.\<close>

lemma create_payment_trace:
  "set (trace w) \<subseteq> set (trace (snd (create_payment e a d u m w)))"
  by (auto simp: create_payment_def emit_def Let_def split: sum.splits option.splits)

lemma create_payment_keeps:
  "ev \<in> set (trace w) \<Longrightarrow> ev \<in> set (trace (snd (create_payment e a d u m w)))"
  using create_payment_trace [of w e a d u m] by blast

lemma create_recurrent_payment_calls_find_one:
  "Payment_find_one p \<in> set (trace (snd (create_recurrent_payment e a d u p m w)))"
proof -
  have 1: "Payment_find_one p \<in> set (trace (emit (Payment_find_one p) w))"
    by (simp add: emit_def)
  have 2: "\<And>ev. Payment_find_one p \<in> set (trace (emit ev (emit (Payment_find_one p) w)))"
    by (simp add: emit_def)
  show ?thesis
    using 1 2
    by (auto simp: create_recurrent_payment_def Let_def split: sum.splits option.splits
             intro!: create_payment_keeps)
qed

lemma create_renewal_subscription_trace:
  "trace (snd (create_renewal_subscription e s p w)) = trace w"
  by (simp add: create_renewal_subscription_def utcnow_def Let_def)

lemma activate_subscription_trace:
  "trace (snd (activate_subscription e p w)) = trace w"
  by (simp add: activate_subscription_def utcnow_def Let_def split: sum.splits option.splits)

lemma update_renewal_attempt_trace:
  "trace (snd (update_renewal_attempt e i w)) = trace w"
  by (simp add: update_renewal_attempt_def utcnow_def Let_def split: sum.splits option.splits)

lemma notify_user_renewal_success_trace:
  "set (trace w) \<subseteq> set (trace (snd (notify_user_renewal_success e s w)))"
  by (auto simp: notify_user_renewal_success_def emit_def split: sum.splits option.splits)

lemma notify_user_renewal_pending_trace:
  "set (trace w) \<subseteq> set (trace (snd (notify_user_renewal_pending e s i w)))"
  by (auto simp: notify_user_renewal_pending_def emit_def split: sum.splits option.splits)

section \<open>The claims\<close>

text \<open>
  C1, as the claim states it, fails: \<^verbatim>\<open>activate_subscription\<close> does not look
  at the status. Confirmed twice, two minutes apart, the payment \<open>p1\<close> ends
  two minutes later than when it is confirmed once.
\<close>

theorem activate_twice_counterexample:
  "map end_date (user_subscriptions
     (snd (activate_subscription ex_env ''p1'' ex_pending_world))) = [Some 5140860000000] \<and>
   map end_date (user_subscriptions
     (snd (activate_subscription ex_env ''p1''
        (snd (activate_subscription ex_env ''p1'' ex_pending_world))))) =
     [Some 5140980000000]"
  by (simp add: ex_defs op_defs)

text \<open>
  C1, amended. In a table with distinct keys, a second call of
  \<^verbatim>\<open>activate_subscription\<close> with the same reference finds the row again and
  stamps it again: \<open>start_date\<close> is the time of the second call and
  \<open>end_date\<close> and \<open>next_payment_date\<close> that time plus the subscription's
  duration. The \<open>end_date\<close> after two calls is the one after one call exactly
  when the clock reads the same at both.
\<close>

theorem activate_subscription_restamps:
  assumes pk: "distinct (map sub_id (user_subscriptions w))"
      and first: "activate_subscription e pid w = (Inr (Some s1), w1)"
  shows "end_date s1 =
           Some (utcnow_at e (Suc (clock w)) + timedelta_days (SUBSCRIPTION_DAYS e)) \<and>
         fst (activate_subscription e pid w1) =
           Inr (Some (s1\<lparr>start_date := Some (utcnow_at e (clock w1)),
                  end_date := Some (utcnow_at e (Suc (clock w1)) +
                                    timedelta_days (SUBSCRIPTION_DAYS e)),
                  next_payment_date := Some (utcnow_at e (Suc (clock w1)) +
                                    timedelta_days (SUBSCRIPTION_DAYS e))\<rparr>)) \<and>
         filter (\<lambda>r. payment_id r = pid)
           (user_subscriptions (snd (activate_subscription e pid w1))) =
           [s1\<lparr>start_date := Some (utcnow_at e (clock w1)),
               end_date := Some (utcnow_at e (Suc (clock w1)) +
                                 timedelta_days (SUBSCRIPTION_DAYS e)),
               next_payment_date := Some (utcnow_at e (Suc (clock w1)) +
                                 timedelta_days (SUBSCRIPTION_DAYS e))\<rparr>] \<and>
         (map end_date (filter (\<lambda>r. payment_id r = pid)
            (user_subscriptions (snd (activate_subscription e pid w1)))) = [end_date s1]
          \<longleftrightarrow> utcnow_at e (Suc (clock w1)) = utcnow_at e (Suc (clock w)))"
proof -
  let ?rows = "user_subscriptions w"
  let ?d = "timedelta_days (SUBSCRIPTION_DAYS e)"
  obtain s where sel: "filter (\<lambda>r. payment_id r = pid) ?rows = [s]"
    using first
    by (cases "scalar_one_or_none (filter (\<lambda>r. payment_id r = pid) ?rows)")
       (auto simp: activate_subscription_def scalar_one_or_none_Some split: option.splits)
  let ?s1 = "s\<lparr>status := ''succeeded'', start_date := Some (utcnow_at e (clock w)),
               end_date := Some (utcnow_at e (Suc (clock w)) + ?d),
               next_payment_date := Some (utcnow_at e (Suc (clock w)) + ?d)\<rparr>"
  have "(Inr (Some s1) :: exn + UserSubscription option, w1) =
        (Inr (Some ?s1), w\<lparr>clock := Suc (Suc (clock w)),
                           user_subscriptions := update_subscription ?s1 ?rows\<rparr>)"
    unfolding first [symmetric] by (rule activate_subscription_found [OF sel])
  then have s1: "s1 = ?s1"
    and w1: "w1 = w\<lparr>clock := Suc (Suc (clock w)),
                    user_subscriptions := update_subscription ?s1 ?rows\<rparr>"
    by blast+
  have "s \<in> set (filter (\<lambda>r. payment_id r = pid) ?rows)" using sel by simp
  then have pid: "payment_id s = pid" by simp
  have sel1: "filter (\<lambda>r. payment_id r = pid) (user_subscriptions w1) = [s1]"
    using update_subscription_selected [OF pk sel, of ?s1] pid by (simp add: w1 s1)
  have pk1: "distinct (map sub_id (user_subscriptions w1))"
    using pk by (simp add: w1 update_subscription_keys)
  let ?s2 = "s1\<lparr>start_date := Some (utcnow_at e (clock w1)),
                end_date := Some (utcnow_at e (Suc (clock w1)) + ?d),
                next_payment_date := Some (utcnow_at e (Suc (clock w1)) + ?d)\<rparr>"
  have second: "activate_subscription e pid w1 =
      (Inr (Some ?s2), w1\<lparr>clock := Suc (Suc (clock w1)),
                          user_subscriptions := update_subscription ?s2 (user_subscriptions w1)\<rparr>)"
    using activate_subscription_found [OF sel1, of e] by (simp add: w1 s1)
  have sel2: "filter (\<lambda>r. payment_id r = pid)
                (user_subscriptions (snd (activate_subscription e pid w1))) = [?s2]"
    using update_subscription_selected [OF pk1 sel1, of ?s2] pid by (simp add: second s1)
  have e1: "end_date s1 = Some (utcnow_at e (Suc (clock w)) + ?d)" by (simp add: s1)
  show ?thesis
    unfolding sel2 using e1 second by simp
qed

theorem activate_subscription_restamps_witness:
  "fst (activate_subscription ex_env ''p1''
          (snd (activate_subscription ex_env ''p1'' ex_pending_world))) =
     Inr (Some (ex_subscription\<lparr>start_date := Some 2548920000000,
                  end_date := Some 5140980000000,
                  next_payment_date := Some 5140980000000\<rparr>))"
proof -
  have pk: "distinct (map sub_id (user_subscriptions ex_pending_world))"
    by (simp add: ex_defs)
  have first: "activate_subscription ex_env ''p1'' ex_pending_world =
      (Inr (Some (ex_subscription\<lparr>start_date := Some 2548800000000,
                    end_date := Some 5140860000000,
                    next_payment_date := Some 5140860000000\<rparr>)),
       snd (activate_subscription ex_env ''p1'' ex_pending_world))"
    by (simp add: ex_defs op_defs)
  from activate_subscription_restamps [OF pk first] show ?thesis
    by (simp add: ex_defs op_defs)
qed

text \<open>
  C2. The code at the failing input: a user asks for a subscription twice, pays
  both payments and has each checked. Both rows of the user then satisfy the
  active condition, and \<^verbatim>\<open>get_active_subscription\<close> raises
  \<^verbatim>\<open>MultipleResultsFound\<close> instead of returning the row that ends last.
\<close>

theorem get_active_subscription_twice_paid:
  "map payment_id (filter (is_active 1 (utcnow_at ex_env (clock ex_twice_paid_world)))
     (user_subscriptions ex_twice_paid_world)) = [''p1'', ''p2''] \<and>
   map end_date (user_subscriptions ex_twice_paid_world) =
     [Some 5140980000000, Some 5141160000000] \<and>
   fst (get_active_subscription ex_env 1 ex_twice_paid_world) = Inl MultipleResultsFound"
  by (simp add: ex_defs op_defs)

text \<open>
  C3. The code at the failing input: in the state where both payments of the
  user are confirmed, so that the user has active subscriptions,
  \<^verbatim>\<open>can_use_photo\<close> and \<^verbatim>\<open>can_ask_question\<close> raise
  \<^verbatim>\<open>MultipleResultsFound\<close> instead of returning true.
\<close>

theorem can_use_photo_twice_paid:
  "fst (can_use_photo ex_env 1 ex_twice_paid_world) = Inl MultipleResultsFound \<and>
   fst (can_ask_question ex_env 1 ex_twice_paid_world) = Inl MultipleResultsFound"
  by (simp add: ex_defs op_defs)


text \<open>
  C5, as the claim states it, fails in its second half. A subscription with two
  failed attempts is scanned three times. The first scan passes the gates, the
  attempt raises (the session holds no user) and is recorded: the counter
  reaches three. The next two scans go to the final-failure notification, which
  raises in the same way: no message is sent, once or at all, and each scan
  adds to the counter. In a session that holds the user, two successive calls
  for a subscription at three attempts send the message twice.
\<close>

theorem renewal_failed_never_sent_counterexample:
  "map renewal_attempts (user_subscriptions
     (snd (check_and_renew_subscriptions ex_env ex_tried_twice_world))) = [3] \<and>
   trace (snd (check_and_renew_subscriptions ex_env
     (snd (check_and_renew_subscriptions ex_env
        (snd (check_and_renew_subscriptions ex_env ex_tried_twice_world)))))) = [bot_get_me] \<and>
   map renewal_attempts (user_subscriptions
     (snd (check_and_renew_subscriptions ex_env
        (snd (check_and_renew_subscriptions ex_env
           (snd (check_and_renew_subscriptions ex_env ex_tried_twice_world))))))) = [5] \<and>
   trace (snd (process_renewal ex_env ex_exhausted_subscription
     (snd (process_renewal ex_env ex_exhausted_subscription
        (ex_exhausted_world\<lparr>loaded_users := [ex_user]\<rparr>))))) =
     [send_message 100 (renewal_failed 2592000000000),
      send_message 100 (renewal_failed 2592000000000)]"
  by (simp add: ex_defs op_defs)

text \<open>
  C5, amended. For a subscription with three or more attempts,
  \<^verbatim>\<open>process_renewal\<close> is the final-failure notification and nothing else: it
  never calls the gateway, writes no row and reads no clock, and the only
  thing it can add to the trace is one final-failure message. It keeps no
  record of having run, so it does the same at every call, that is in every
  scan that lists the subscription. (Whether the message is delivered is not
  part of the amended claim.)
\<close>

theorem process_renewal_exhausted:
  assumes "3 \<le> renewal_attempts s"
  shows "process_renewal e s w = notify_user_renewal_failed e s w \<and>
         user_subscriptions (snd (process_renewal e s w)) = user_subscriptions w \<and>
         user_usage (snd (process_renewal e s w)) = user_usage w \<and>
         clock (snd (process_renewal e s w)) = clock w \<and>
         (trace (snd (process_renewal e s w)) = trace w \<or>
          (\<exists>tg d. trace (snd (process_renewal e s w)) =
                    trace w @ [send_message tg (renewal_failed d)]))"
  using assms
  by (auto simp: process_renewal_def notify_user_renewal_failed_def emit_def
           split: sum.splits option.splits)

theorem process_renewal_exhausted_witness:
  "process_renewal ex_env ex_exhausted_subscription ex_exhausted_world =
     (Inl MissingGreenlet, ex_exhausted_world) \<and>
   process_renewal ex_env ex_exhausted_subscription
     (ex_exhausted_world\<lparr>loaded_users := [ex_user]\<rparr>) =
     (Inr (), ex_exhausted_world\<lparr>loaded_users := [ex_user],
                trace := [send_message 100 (renewal_failed 2592000000000)]\<rparr>)"
proof -
  have a: "3 \<le> renewal_attempts ex_exhausted_subscription" by (simp add: ex_defs)
  from process_renewal_exhausted [OF a, of ex_env ex_exhausted_world]
  have "process_renewal ex_env ex_exhausted_subscription ex_exhausted_world =
          notify_user_renewal_failed ex_env ex_exhausted_subscription ex_exhausted_world"
    by blast
  also have "\<dots> = (Inl MissingGreenlet, ex_exhausted_world)"
    by (simp add: ex_defs notify_user_renewal_failed_def subscription_user_def)
  finally have fresh: "process_renewal ex_env ex_exhausted_subscription ex_exhausted_world =
                         (Inl MissingGreenlet, ex_exhausted_world)" .
  from process_renewal_exhausted
         [OF a, of ex_env "ex_exhausted_world\<lparr>loaded_users := [ex_user]\<rparr>"]
  have "process_renewal ex_env ex_exhausted_subscription
          (ex_exhausted_world\<lparr>loaded_users := [ex_user]\<rparr>) =
        notify_user_renewal_failed ex_env ex_exhausted_subscription
          (ex_exhausted_world\<lparr>loaded_users := [ex_user]\<rparr>)"
    by blast
  also have "\<dots> = (Inr (), ex_exhausted_world\<lparr>loaded_users := [ex_user],
                trace := [send_message 100 (renewal_failed 2592000000000)]\<rparr>)"
    by (simp add: ex_defs notify_user_renewal_failed_def subscription_user_def emit_def)
  finally have held: "process_renewal ex_env ex_exhausted_subscription
          (ex_exhausted_world\<lparr>loaded_users := [ex_user]\<rparr>) =
        (Inr (), ex_exhausted_world\<lparr>loaded_users := [ex_user],
                trace := [send_message 100 (renewal_failed 2592000000000)]\<rparr>)" .
  from fresh held show ?thesis by blast
qed

text \<open>
  C6, as the claim states it, fails twice. \<^verbatim>\<open>activate_subscription\<close> does not
  look at the status, so a confirmation for the payment of a canceled row makes
  the row \<open>succeeded\<close> and stamps its dates. And \<^verbatim>\<open>cancel_subscription\<close>
  writes the auto-renewal flag off, which changes a canceled row whose flag was
  still on, as the handlers leave it.
\<close>

theorem canceled_row_changed_counterexample:
  "status ex_canceled_subscription = ''canceled'' \<and>
   user_subscriptions (snd (activate_subscription ex_env ''p1'' ex_canceled_world)) =
     [ex_canceled_subscription\<lparr>status := ''succeeded'', start_date := Some 2548800000000,
        end_date := Some 5140860000000, next_payment_date := Some 5140860000000\<rparr>] \<and>
   status ex_canceled_by_handler = ''canceled'' \<and>
   is_auto_renewal ex_canceled_by_handler = True \<and>
   user_subscriptions ex_mixed_world = [ex_subscription, ex_canceled_by_handler] \<and>
   user_subscriptions (snd (cancel_subscription ex_env 2 ex_mixed_world)) =
     [ex_subscription, ex_canceled_by_handler\<lparr>is_auto_renewal := False\<rparr>] \<and>
   ex_canceled_by_handler\<lparr>is_auto_renewal := False\<rparr> \<noteq> ex_canceled_by_handler"
  by (simp add: ex_defs op_defs)

text \<open>
  C6, amended. In a table with distinct keys, \<^verbatim>\<open>toggle_auto_renewal\<close> changes
  no canceled row, and \<^verbatim>\<open>cancel_subscription\<close> on a canceled row \<open>r\<close> returns
  true and leaves in the table, under the key of \<open>r\<close>, the row \<open>r\<close> with its
  status and dates and with auto-renewal off, and every other row as it was.
  (What \<^verbatim>\<open>activate_subscription\<close> does to a canceled row is not part of the
  amended claim.)
\<close>

theorem canceled_row_cancel_toggle:
  assumes pk: "distinct (map sub_id (user_subscriptions w))"
      and mem: "r \<in> set (user_subscriptions w)"
      and st: "status r = ''canceled''"
  shows "filter (\<lambda>x. status x = ''canceled'')
           (user_subscriptions (snd (toggle_auto_renewal e uid enable w))) =
         filter (\<lambda>x. status x = ''canceled'') (user_subscriptions w) \<and>
         fst (cancel_subscription e (sub_id r) w) = Inr True \<and>
         filter (\<lambda>x. sub_id x = sub_id r)
           (user_subscriptions (snd (cancel_subscription e (sub_id r) w))) =
           [r\<lparr>is_auto_renewal := False\<rparr>] \<and>
         filter (\<lambda>x. sub_id x \<noteq> sub_id r)
           (user_subscriptions (snd (cancel_subscription e (sub_id r) w))) =
           filter (\<lambda>x. sub_id x \<noteq> sub_id r) (user_subscriptions w)"
proof -
  have sel: "filter (\<lambda>x. sub_id x = sub_id r) (user_subscriptions w) = [r]"
    using pk mem by (rule filter_key_distinct)
  have rr: "r\<lparr>status := ''canceled'', is_auto_renewal := False\<rparr> = r\<lparr>is_auto_renewal := False\<rparr>"
    using st by simp
  note c = cancel_subscription_found [OF sel, of e, unfolded rr]
  have c1: "filter (\<lambda>x. sub_id x = sub_id r)
              (update_subscription (r\<lparr>is_auto_renewal := False\<rparr>) (user_subscriptions w)) =
            [r\<lparr>is_auto_renewal := False\<rparr>]"
    using pk sel by (intro update_subscription_selected [where s = r]) simp_all
  have c2: "filter (\<lambda>x. sub_id x \<noteq> sub_id r)
              (update_subscription (r\<lparr>is_auto_renewal := False\<rparr>) (user_subscriptions w)) =
            filter (\<lambda>x. sub_id x \<noteq> sub_id r) (user_subscriptions w)"
    using pk mem by (intro update_subscription_others [where s = r]) simp_all
  from toggle_auto_renewal_canceled [OF pk, of e uid enable] c1 c2 show ?thesis
    by (simp add: c)
qed

theorem canceled_row_cancel_toggle_witness:
  "filter (\<lambda>x. status x = ''canceled'')
     (user_subscriptions (snd (toggle_auto_renewal ex_env 1 False ex_mixed_world))) =
     [ex_canceled_by_handler] \<and>
   fst (cancel_subscription ex_env 2 ex_mixed_world) = Inr True \<and>
   filter (\<lambda>x. sub_id x = 2)
     (user_subscriptions (snd (cancel_subscription ex_env 2 ex_mixed_world))) =
     [ex_canceled_by_handler\<lparr>is_auto_renewal := False\<rparr>]"
proof -
  have pk: "distinct (map sub_id (user_subscriptions ex_mixed_world))"
    by (simp add: ex_defs)
  have mem: "ex_canceled_by_handler \<in> set (user_subscriptions ex_mixed_world)"
    by (simp add: ex_defs)
  have st: "status ex_canceled_by_handler = ''canceled''"
    by (simp add: ex_defs)
  from canceled_row_cancel_toggle [OF pk mem st, of ex_env 1 False] show ?thesis
    by (simp add: ex_defs)
qed

text \<open>
  C7, as the claim states it, fails: when the parent payment has no stored
  payment method, \<^verbatim>\<open>create_recurrent_payment\<close> returns \<^verbatim>\<open>None\<close> after the
  one call of \<^verbatim>\<open>Payment.find_one\<close>; \<^verbatim>\<open>Payment.create\<close> is not called, so no
  plain payment is made.
\<close>

theorem create_recurrent_payment_no_method_counterexample:
  "create_recurrent_payment ex_env_no_method 299 renewal_description ''https://t.me/nutribot''
     ''p1'' None ex_world =
   (None, ex_world\<lparr>trace := [Payment_find_one ''p1'']\<rparr>)"
  by (simp add: ex_defs op_defs)

text \<open>
  C7, amended. When no stored payment method is found (\<^verbatim>\<open>find_one\<close> gives no
  payment, or one without a method), \<^verbatim>\<open>create_recurrent_payment\<close> reports
  failure and calls the gateway no further. It falls back to the plain
  \<^verbatim>\<open>create_payment\<close> when the gateway raises: in \<^verbatim>\<open>find_one\<close>, or in
  \<^verbatim>\<open>Payment.create\<close> for the recurrent payment.
\<close>

theorem create_recurrent_payment_fallback:
  "(find_one e parent = Inr None \<or>
    (\<exists>p. find_one e parent = Inr (Some p) \<and> pay_payment_method p = None) \<longrightarrow>
      create_recurrent_payment e amt descr url parent md w =
        (None, emit (Payment_find_one parent) w)) \<and>
   (\<forall>x. find_one e parent = Inl x \<longrightarrow>
      create_recurrent_payment e amt descr url parent md w =
        create_payment e amt descr url md (emit (Payment_find_one parent) w)) \<and>
   (\<forall>p m x. find_one e parent = Inr (Some p) \<and> pay_payment_method p = Some m \<and>
      create e \<lparr>pd_amount = amt, pd_capture = True, pd_description = descr,
                pd_return_url = None, pd_payment_method_id = Some m,
                pd_save_payment_method = True, pd_metadata = md\<rparr> = Inl x \<longrightarrow>
      create_recurrent_payment e amt descr url parent md w =
        create_payment e amt descr url md
          (emit (Payment_create \<lparr>pd_amount = amt, pd_capture = True, pd_description = descr,
                   pd_return_url = None, pd_payment_method_id = Some m,
                   pd_save_payment_method = True, pd_metadata = md\<rparr>)
             (emit (Payment_find_one parent) w)))"
  by (auto simp: create_recurrent_payment_def Let_def)

theorem create_recurrent_payment_fallback_witness:
  "create_recurrent_payment ex_env_no_method 299 renewal_description ''https://t.me/nutribot''
     ''p1'' None ex_world = (None, emit (Payment_find_one ''p1'') ex_world) \<and>
   fst (create_recurrent_payment ex_env_raises 299 renewal_description ''https://t.me/nutribot''
     ''p1'' None ex_world) =
     Some \<lparr>pi_id = ''p3'', pi_status = ''pending'',
            pi_confirmation_url = Some ''https://pay.example/p3'', pi_amount = 299\<rparr> \<and>
   fst (create_recurrent_payment ex_env_refused 299 renewal_description ''https://t.me/nutribot''
     ''p1'' None ex_world) =
     Some \<lparr>pi_id = ''p3'', pi_status = ''pending'',
            pi_confirmation_url = Some ''https://pay.example/p3'', pi_amount = 299\<rparr>"
proof -
  let ?url = "''https://t.me/nutribot''"
  let ?pd = "\<lparr>pd_amount = 299, pd_capture = True, pd_description = renewal_description,
              pd_return_url = None, pd_payment_method_id = Some ''pm1'',
              pd_save_payment_method = True, pd_metadata = None\<rparr>"
  have no_method: "find_one ex_env_no_method ''p1'' = Inr None \<or>
    (\<exists>p. find_one ex_env_no_method ''p1'' = Inr (Some p) \<and> pay_payment_method p = None)"
    by (simp add: ex_defs)
  have raises: "find_one ex_env_raises ''p1'' = Inl GatewayError"
    by (simp add: ex_defs)
  have refused: "find_one ex_env_refused ''p1'' =
      Inr (Some \<lparr>pay_id = ''p1'', pay_status = ''succeeded'', pay_confirmation = None,
                 pay_payment_method = Some ''pm1'', pay_cancellation_details = None\<rparr>) \<and>
      pay_payment_method \<lparr>pay_id = ''p1'', pay_status = ''succeeded'', pay_confirmation = None,
                 pay_payment_method = Some ''pm1'', pay_cancellation_details = None\<rparr> = Some ''pm1'' \<and>
      create ex_env_refused ?pd = Inl GatewayError"
    by (simp add: ex_defs)
  from create_recurrent_payment_fallback
         [of ex_env_no_method "''p1''" 299 renewal_description ?url None ex_world]
       no_method
  have a: "create_recurrent_payment ex_env_no_method 299 renewal_description ?url ''p1'' None
             ex_world = (None, emit (Payment_find_one ''p1'') ex_world)"
    by blast
  from create_recurrent_payment_fallback
         [of ex_env_raises "''p1''" 299 renewal_description ?url None ex_world]
       raises
  have b: "create_recurrent_payment ex_env_raises 299 renewal_description ?url ''p1'' None
             ex_world =
           create_payment ex_env_raises 299 renewal_description ?url None
             (emit (Payment_find_one ''p1'') ex_world)"
    by blast
  from create_recurrent_payment_fallback
         [of ex_env_refused "''p1''" 299 renewal_description ?url None ex_world]
       refused
  have c: "create_recurrent_payment ex_env_refused 299 renewal_description ?url ''p1'' None
             ex_world =
           create_payment ex_env_refused 299 renewal_description ?url None
             (emit (Payment_create ?pd) (emit (Payment_find_one ''p1'') ex_world))"
    by blast
  show ?thesis
    unfolding a b c by (simp add: ex_defs op_defs)
qed

text \<open>
  C8, as the claim states it, fails: \<^verbatim>\<open>get_expiring_subscriptions\<close> reads the
  clock twice, first for the horizon and again for the lower bound, so its
  window is shorter than a day by the time between the reads. With the reads a
  minute apart, of three paid auto-renewing subscriptions only the one ending
  in twelve hours is returned: the one ending at the second read lies in
  \<open>(now, now + 1 day]\<close> for the first read as \<open>now\<close>, the one ending a
  day after the second read lies in it for the second read as \<open>now\<close>.
\<close>

theorem get_expiring_subscriptions_counterexample:
  "fst (get_expiring_subscriptions ex_env 1 ex_window_world) = [ex_ends_in_12h] \<and>
   user_subscriptions ex_window_world = [ex_ends_at_once, ex_ends_in_a_day, ex_ends_in_12h] \<and>
   status ex_ends_at_once = ''succeeded'' \<and> is_auto_renewal ex_ends_at_once \<and>
   end_date ex_ends_at_once = Some 2548860000000 \<and>
   utcnow_at ex_env 0 < 2548860000000 \<and>
   2548860000000 \<le> utcnow_at ex_env 0 + timedelta_days 1 \<and>
   status ex_ends_in_a_day = ''succeeded'' \<and> is_auto_renewal ex_ends_in_a_day \<and>
   end_date ex_ends_in_a_day = Some 2635260000000 \<and>
   utcnow_at ex_env 1 < 2635260000000 \<and>
   2635260000000 \<le> utcnow_at ex_env 1 + timedelta_days 1"
  by (simp add: ex_defs op_defs)

text \<open>
  C8, amended. \<^verbatim>\<open>get_expiring_subscriptions\<close> with \<open>days_before = 1\<close> returns
  exactly the rows with status \<open>succeeded\<close>, auto-renewal on and \<open>end_date\<close>
  in \<open>(t2, t1 + 1 day]\<close>, where \<open>t1\<close> is its first read of the clock and
  \<open>t2\<close> its second, one day being 86400000000 microseconds; it changes no
  row. A canceled row, and a row whose \<open>end_date\<close> has passed at \<open>t2\<close>, are
  not among them. When both reads give the same instant the window is
  \<open>(now, now + 1 day]\<close>.
\<close>

theorem get_expiring_subscriptions_window:
  "fst (get_expiring_subscriptions e 1 w) =
     filter (\<lambda>r. status r = ''succeeded'' \<and> is_auto_renewal r \<and>
               (\<exists>d. end_date r = Some d \<and> utcnow_at e (Suc (clock w)) < d \<and>
                    d \<le> utcnow_at e (clock w) + 86400000000))
       (user_subscriptions w) \<and>
   snd (get_expiring_subscriptions e 1 w) = w\<lparr>clock := Suc (Suc (clock w))\<rparr>"
proof -
  have "is_expiring (utcnow_at e (clock w) + timedelta_days 1) (utcnow_at e (Suc (clock w))) =
        (\<lambda>r. status r = ''succeeded'' \<and> is_auto_renewal r \<and>
               (\<exists>d. end_date r = Some d \<and> utcnow_at e (Suc (clock w)) < d \<and>
                    d \<le> utcnow_at e (clock w) + 86400000000))"
    by (rule ext) (auto simp: is_expiring_def timedelta_days_def split: option.splits)
  then show ?thesis
    by (simp add: get_expiring_subscriptions_def utcnow_def Let_def)
qed



text \<open>
  C10. \<^verbatim>\<open>increment_photos\<close> returns the user's record (the stored one, or the
  fresh one with zero counters) with \<open>photos_used\<close> one larger and
  \<open>questions_used\<close> and \<open>last_reset\<close> as they were, stores exactly that
  record for the user and changes the row of no other user and no
  subscription; \<^verbatim>\<open>increment_questions\<close> does the same for \<open>questions_used\<close>.
\<close>

theorem increment_frame:
  assumes got: "get_or_create_usage e uid w = (Inr usage, w0)"
      and pk: "distinct (map usage_id (user_usage w))"
  shows "fst (increment_photos e uid w) = Inr (usage\<lparr>photos_used := photos_used usage + 1\<rparr>) \<and>
         filter (\<lambda>r. usage_user_id r = uid) (user_usage (snd (increment_photos e uid w))) =
           [usage\<lparr>photos_used := photos_used usage + 1\<rparr>] \<and>
         filter (\<lambda>r. usage_user_id r \<noteq> uid) (user_usage (snd (increment_photos e uid w))) =
           filter (\<lambda>r. usage_user_id r \<noteq> uid) (user_usage w) \<and>
         user_subscriptions (snd (increment_photos e uid w)) = user_subscriptions w \<and>
         fst (increment_questions e uid w) =
           Inr (usage\<lparr>questions_used := questions_used usage + 1\<rparr>) \<and>
         filter (\<lambda>r. usage_user_id r = uid) (user_usage (snd (increment_questions e uid w))) =
           [usage\<lparr>questions_used := questions_used usage + 1\<rparr>] \<and>
         filter (\<lambda>r. usage_user_id r \<noteq> uid) (user_usage (snd (increment_questions e uid w))) =
           filter (\<lambda>r. usage_user_id r \<noteq> uid) (user_usage w) \<and>
         user_subscriptions (snd (increment_questions e uid w)) = user_subscriptions w"
proof -
  note row = get_or_create_usage_row [OF got pk]
  let ?up = "usage\<lparr>photos_used := photos_used usage + 1\<rparr>"
  let ?uq = "usage\<lparr>questions_used := questions_used usage + 1\<rparr>"
  have p: "increment_photos e uid w =
             (Inr ?up, w0\<lparr>user_usage := update_usage ?up (user_usage w0)\<rparr>)"
    using got by (simp add: increment_photos_def Let_def)
  have q: "increment_questions e uid w =
             (Inr ?uq, w0\<lparr>user_usage := update_usage ?uq (user_usage w0)\<rparr>)"
    using got by (simp add: increment_questions_def Let_def)
  note sp = update_usage_selected [OF row(2) row(1), of ?up]
  note sq = update_usage_selected [OF row(2) row(1), of ?uq]
  have p1: "filter (\<lambda>r. usage_user_id r = uid) (user_usage (snd (increment_photos e uid w))) =
              [?up]"
    using sp(1) row(3) by (simp add: p)
  have p2: "filter (\<lambda>r. usage_user_id r \<noteq> uid) (user_usage (snd (increment_photos e uid w))) =
              filter (\<lambda>r. usage_user_id r \<noteq> uid) (user_usage w)"
    using sp(2) row(3,4) by (simp add: p)
  have p3: "user_subscriptions (snd (increment_photos e uid w)) = user_subscriptions w"
    using row(5) by (simp add: p)
  have q1: "filter (\<lambda>r. usage_user_id r = uid) (user_usage (snd (increment_questions e uid w))) =
              [?uq]"
    using sq(1) row(3) by (simp add: q)
  have q2: "filter (\<lambda>r. usage_user_id r \<noteq> uid)
              (user_usage (snd (increment_questions e uid w))) =
              filter (\<lambda>r. usage_user_id r \<noteq> uid) (user_usage w)"
    using sq(2) row(3,4) by (simp add: q)
  have q3: "user_subscriptions (snd (increment_questions e uid w)) = user_subscriptions w"
    using row(5) by (simp add: q)
  from p1 p2 p3 q1 q2 q3 show ?thesis by (simp add: p q)
qed

theorem increment_frame_witness:
  "fst (increment_photos ex_env 1 ex_world) =
     Inr \<lparr>usage_id = 1, usage_user_id = 1, photos_used = 6, questions_used = 10,
          last_reset = 0\<rparr> \<and>
   fst (increment_questions ex_env 1 ex_world) =
     Inr \<lparr>usage_id = 1, usage_user_id = 1, photos_used = 5, questions_used = 11,
          last_reset = 0\<rparr> \<and>
   user_subscriptions (snd (increment_photos ex_env 1 ex_world)) = [ex_subscription]"
proof -
  have got: "get_or_create_usage ex_env 1 ex_world = (Inr ex_usage, ex_world)"
    by (simp add: get_or_create_usage_def ex_world_def ex_usage_def)
  have pk: "distinct (map usage_id (user_usage ex_world))"
    by (simp add: ex_world_def)
  from increment_frame [OF got pk] show ?thesis
    by (simp add: ex_usage_def ex_world_def)
qed

end
